theory Spec2Isabelle
  imports Main
begin

section \<open>Python values, exceptions and attribute access\<close>

text \<open>
  The functions of \<^verbatim>\<open>airbyte/_util/api_util.py\<close> work on objects of the vendor SDK and on
  parsed JSON. Both are dynamically typed, so they are embedded as one datatype of Python
  values. An object carries its class name and its attributes in definition order; a
  function object carries its name only (it is never equal to a string).
\<close>

datatype pyval =
    PNone
  | PBool bool
  | PInt int
  | PStr string
  | PList "pyval list"
  | PDict "(string \<times> pyval) list"
  | PObj string "(string \<times> pyval) list"
  | PFunc string

text \<open>Every \<^verbatim>\<open>raise\<close> of the source, and every exception of the interpreter that the
  modelled statements can throw, is a value of this type.\<close>

datatype error =
    AirbyteError
  | AirbyteMissingResourceError
  | AirbyteMultipleResourcesError
  | AirbyteConnectorCheckFailedError
  | AirbyteLibInternalError
  | NotImplementedError
  | AttributeError string
  | KeyError string
  | TypeError
  | ValueError
  | HTTPError
  | ExternalError string

definition on_ok :: "error + 'a \<Rightarrow> ('a \<Rightarrow> error + 'b) \<Rightarrow> error + 'b" where
  "on_ok m f = (case m of Inl e \<Rightarrow> Inl e | Inr v \<Rightarrow> f v)"

text \<open>Truth value of an object in a condition (\<^verbatim>\<open>if x\<close>, \<^verbatim>\<open>a and b\<close>): \<^verbatim>\<open>None\<close>, zero and
  empty containers are false; an SDK model instance is always true.\<close>

fun truthy :: "pyval \<Rightarrow> bool" where
  "truthy PNone = False"
| "truthy (PBool b) = b"
| "truthy (PInt n) = (n \<noteq> 0)"
| "truthy (PStr s) = (s \<noteq> [])"
| "truthy (PList xs) = (xs \<noteq> [])"
| "truthy (PDict kvs) = (kvs \<noteq> [])"
| "truthy (PObj c fs) = True"
| "truthy (PFunc f) = True"

text \<open>\<^verbatim>\<open>obj.attr\<close>: an attribute the object does not have raises \<^verbatim>\<open>AttributeError\<close>.\<close>

fun getattr :: "pyval \<Rightarrow> string \<Rightarrow> error + pyval" where
  "getattr (PObj c fs) a =
     (case map_of fs a of None \<Rightarrow> Inl (AttributeError a) | Some v \<Rightarrow> Inr v)"
| "getattr v a = Inl (AttributeError a)"

fun set_item :: "string \<Rightarrow> pyval \<Rightarrow> (string \<times> pyval) list \<Rightarrow> (string \<times> pyval) list" where
  "set_item k v [] = [(k, v)]"
| "set_item k v ((k', v') # kvs) =
     (if k = k' then (k, v) # kvs else (k', v') # set_item k v kvs)"

text \<open>\<^verbatim>\<open>obj.attr = v\<close>: only the named attribute of the object changes. Assigning to an
  attribute of \<^verbatim>\<open>None\<close> (or of any value that is not a model instance) raises.\<close>

fun setattr :: "pyval \<Rightarrow> string \<Rightarrow> pyval \<Rightarrow> error + pyval" where
  "setattr (PObj c fs) a v = Inr (PObj c (set_item a v fs))"
| "setattr x a v = Inl (AttributeError a)"

text \<open>\<^verbatim>\<open>d[key]\<close> with a string key: a missing key raises \<^verbatim>\<open>KeyError\<close>, a value that is not a
  dict raises \<^verbatim>\<open>TypeError\<close>.\<close>

fun getitem :: "pyval \<Rightarrow> string \<Rightarrow> error + pyval" where
  "getitem (PDict kvs) k =
     (case map_of kvs k of None \<Rightarrow> Inl (KeyError k) | Some v \<Rightarrow> Inr v)"
| "getitem v k = Inl TypeError"

text \<open>\<^verbatim>\<open>d.get(key, None)\<close>: a missing key gives \<^verbatim>\<open>None\<close>; only dicts have the method.\<close>

fun dict_get :: "pyval \<Rightarrow> string \<Rightarrow> error + pyval" where
  "dict_get (PDict kvs) k =
     (case map_of kvs k of None \<Rightarrow> Inr PNone | Some v \<Rightarrow> Inr v)"
| "dict_get v k = Inl (AttributeError ''get'')"

fun starts_with :: "string \<Rightarrow> string \<Rightarrow> bool" where
  "starts_with [] t = True"
| "starts_with (a # s) [] = False"
| "starts_with (a # s) (b # t) = (a = b \<and> starts_with s t)"

fun str_contains :: "string \<Rightarrow> string \<Rightarrow> bool" where
  "str_contains s [] = (s = [])"
| "str_contains s (c # t) = (starts_with s (c # t) \<or> str_contains s t)"

text \<open>\<^verbatim>\<open>x in y\<close>: substring test when \<^verbatim>\<open>y\<close> is a string, and then \<^verbatim>\<open>x\<close> must be a string
  too (\<^verbatim>\<open>TypeError\<close> otherwise); membership in a list; key membership in a dict.\<close>

fun py_in :: "pyval \<Rightarrow> pyval \<Rightarrow> error + bool" where
  "py_in (PStr s) (PStr t) = Inr (str_contains s t)"
| "py_in x (PStr t) = Inl TypeError"
| "py_in x (PList ys) = Inr (x \<in> set ys)"
| "py_in x (PDict kvs) = Inr (x \<in> PStr ` fst ` set kvs)"
| "py_in x y = Inl TypeError"

section \<open>The Airbyte API wrapper (\<^verbatim>\<open>airbyte/_util/api_util.py\<close>)\<close>

definition CLOUD_API_ROOT :: string where
  "CLOUD_API_ROOT = ''https://api.airbyte.com/v1''"

definition LEGACY_API_ROOT :: string where
  "LEGACY_API_ROOT = ''https://cloud.airbyte.com/api/v1''"

definition status_ok :: "int \<Rightarrow> bool" where
  "status_ok status_code \<longleftrightarrow> status_code \<ge> 200 \<and> status_code < 300"

text \<open>
  A response object of the SDK: its status code and its other attributes (the payload
  field of the operation, \<^verbatim>\<open>raw_response\<close>, \<^verbatim>\<open>content_type\<close>). The requests are the ones
  the modelled functions build. An \<^verbatim>\<open>airbyte_api.AirbyteAPI\<close> instance, as returned by
  \<^verbatim>\<open>get_airbyte_server_instance\<close>, answers each request with a response; the server is
  outside the repository, so the instance is a parameter of every operation.
\<close>

record response =
  status_code :: int
  attrs :: "(string \<times> pyval) list"

datatype request =
    GetWorkspaceRequest string
  | GetConnectionRequest string
  | GetJobRequest string
  | GetSourceRequest string
  | GetDestinationRequest string
  | ListConnectionsRequest "string list" bool nat nat

type_synonym airbyte_instance = "request \<Rightarrow> response"

definition attr :: "response \<Rightarrow> string \<Rightarrow> error + pyval" where
  "attr r a = (case map_of (attrs r) a of None \<Rightarrow> Inl (AttributeError a) | Some v \<Rightarrow> Inr v)"

text \<open>
  The four resource getters. Each is
  \<^verbatim>\<open>if status_ok(response.status_code) and response.<field>: return response.<field>\<close>
  followed by a \<^verbatim>\<open>raise\<close>; the second operand of \<^verbatim>\<open>and\<close> is only evaluated when the first
  is true. In \<^verbatim>\<open>raise AirbyteMissingResourceError(id, kind, response.text)\<close> the arguments
  are evaluated before the exception is built, so \<^verbatim>\<open>response.text\<close> is looked up first.
\<close>

definition raise_missing_with_text :: "response \<Rightarrow> error + pyval" where
  "raise_missing_with_text response =
     on_ok (attr response ''text'') (\<lambda>t. Inl AirbyteMissingResourceError)"

definition get_workspace :: "airbyte_instance \<Rightarrow> string \<Rightarrow> error + pyval" where
  "get_workspace airbyte_instance workspace_id =
     (let response = airbyte_instance (GetWorkspaceRequest workspace_id) in
      if status_ok (status_code response) then
        on_ok (attr response ''workspace_response'') (\<lambda>v.
          if truthy v then attr response ''workspace_response''
          else Inl AirbyteMissingResourceError)
      else Inl AirbyteMissingResourceError)"

definition get_connection :: "airbyte_instance \<Rightarrow> string \<Rightarrow> string \<Rightarrow> error + pyval" where
  "get_connection airbyte_instance workspace_id connection_id =
     (let response = airbyte_instance (GetConnectionRequest connection_id) in
      if status_ok (status_code response) then
        on_ok (attr response ''connection_response'') (\<lambda>v.
          if truthy v then attr response ''connection_response''
          else raise_missing_with_text response)
      else raise_missing_with_text response)"

definition get_job_info :: "airbyte_instance \<Rightarrow> string \<Rightarrow> error + pyval" where
  "get_job_info airbyte_instance job_id =
     (let response = airbyte_instance (GetJobRequest job_id) in
      if status_ok (status_code response) then
        on_ok (attr response ''job_response'') (\<lambda>v.
          if truthy v then attr response ''job_response''
          else raise_missing_with_text response)
      else raise_missing_with_text response)"

text \<open>\<^verbatim>\<open>get_source\<close> tests and returns \<^verbatim>\<open>response.connection_response\<close>, as the source has
  it (lines 323 and 324), where \<^verbatim>\<open>create_source\<close> reads \<^verbatim>\<open>response.source_response\<close>.\<close>

definition get_source :: "airbyte_instance \<Rightarrow> string \<Rightarrow> error + pyval" where
  "get_source airbyte_instance source_id =
     (let response = airbyte_instance (GetSourceRequest source_id) in
      if status_ok (status_code response) then
        on_ok (attr response ''connection_response'') (\<lambda>v.
          if truthy v then attr response ''connection_response''
          else raise_missing_with_text response)
      else raise_missing_with_text response)"

subsection \<open>Listing connections\<close>

text \<open>
  The \<^verbatim>\<open>name_filter\<close> argument is a string, a callable or \<^verbatim>\<open>None\<close>. When it is a string,
  \<^verbatim>\<open>list_connections\<close> executes \<^verbatim>\<open>def name_filter(name): return name_filter in name\<close>, which
  rebinds the local variable \<^verbatim>\<open>name_filter\<close> to the new function. The body of that function
  reads the same variable when it is called (a closure captures the variable, not the
  value it had), so the left operand of \<^verbatim>\<open>in\<close> is the function object itself.
\<close>

datatype name_filter_arg =
    ArgNone
  | ArgStr string
  | ArgCallable "pyval \<Rightarrow> error + bool"

datatype name_filter_var =
    VarNone
  | VarCallable "pyval \<Rightarrow> error + bool"
  | VarInnerDef

fun rebind_name_filter :: "name_filter_arg \<Rightarrow> name_filter_var" where
  "rebind_name_filter (ArgStr s) = VarInnerDef"
| "rebind_name_filter ArgNone = VarNone"
| "rebind_name_filter (ArgCallable f) = VarCallable f"

fun call_name_filter :: "name_filter_var \<Rightarrow> pyval \<Rightarrow> error + bool" where
  "call_name_filter VarInnerDef n = py_in (PFunc ''name_filter'') n"
| "call_name_filter (VarCallable f) n = f n"
| "call_name_filter VarNone n = Inl TypeError"

text \<open>\<^verbatim>\<open>name_filter is None or name_filter(connection.name)\<close>\<close>

definition passes_name_filter :: "name_filter_var \<Rightarrow> pyval \<Rightarrow> error + bool" where
  "passes_name_filter name_filter connection =
     (if name_filter = VarNone then Inr True
      else on_ok (getattr connection ''name'') (call_name_filter name_filter))"

text \<open>
  \<^verbatim>\<open>list_connections\<close> is a generator: its body runs while the caller iterates, and the
  caller's own code for a yielded connection runs before the generator goes on. The model
  is the complete iteration: \<open>consumer\<close> is what the caller does with each yielded
  connection, returning whether the caller keeps it; the result is the connections kept
  and the exception that ended the iteration, if any. The inner \<^verbatim>\<open>for\<close> loop:
\<close>

fun yield_connections ::
  "name_filter_var \<Rightarrow> (pyval \<Rightarrow> error + bool) \<Rightarrow> pyval list \<Rightarrow> pyval list \<times> error option" where
  "yield_connections name_filter consumer [] = ([], None)"
| "yield_connections name_filter consumer (connection # connections) =
     (case passes_name_filter name_filter connection of
        Inl e \<Rightarrow> ([], Some e)
      | Inr False \<Rightarrow> yield_connections name_filter consumer connections
      | Inr True \<Rightarrow>
          (case consumer connection of
             Inl e \<Rightarrow> ([], Some e)
           | Inr kept \<Rightarrow>
               (case yield_connections name_filter consumer connections of
                  (ys, r) \<Rightarrow> ((if kept then [connection] else []) @ ys, r))))"

text \<open>
  The \<^verbatim>\<open>while True\<close> loop. It ends only at an empty page or at an exception, so it is a
  partial function: \<open>None\<close> is an iteration that never ends. \<^verbatim>\<open>ConnectionsResponse.data\<close>
  is declared a list; iterating over a true value that is not one is a \<^verbatim>\<open>TypeError\<close> here.
\<close>

partial_function (option) list_connections_loop ::
  "airbyte_instance \<Rightarrow> string \<Rightarrow> name_filter_var \<Rightarrow> (pyval \<Rightarrow> error + bool) \<Rightarrow> nat \<Rightarrow> nat
   \<Rightarrow> (pyval list \<times> error option) option" where
  "list_connections_loop airbyte_instance workspace_id name_filter consumer limit offset =
     (let response = airbyte_instance (ListConnectionsRequest [workspace_id] False limit offset) in
      if status_ok (status_code response) then
        (case attr response ''connections_response'' of
           Inl e \<Rightarrow> Some ([], Some e)
         | Inr connections_response \<Rightarrow>
             if truthy connections_response then
               (case getattr connections_response ''data'' of
                  Inl e \<Rightarrow> Some ([], Some e)
                | Inr connections \<Rightarrow>
                    if \<not> truthy connections then Some ([], None)
                    else
                      (case connections of
                         PList cs \<Rightarrow>
                           (case yield_connections name_filter consumer cs of
                              (ys, Some e) \<Rightarrow> Some (ys, Some e)
                            | (ys, None) \<Rightarrow>
                                Option.bind
                                  (list_connections_loop airbyte_instance workspace_id name_filter
                                     consumer limit (offset + limit))
                                  (\<lambda>(zs, r). Some (ys @ zs, r)))
                       | _ \<Rightarrow> Some ([], Some TypeError)))
             else Some ([], Some AirbyteError))
      else Some ([], Some AirbyteError))"

definition list_connections ::
  "airbyte_instance \<Rightarrow> string \<Rightarrow> name_filter_arg \<Rightarrow> (pyval \<Rightarrow> error + bool)
   \<Rightarrow> (pyval list \<times> error option) option" where
  "list_connections airbyte_instance workspace_id name_filter consumer =
     list_connections_loop airbyte_instance workspace_id (rebind_name_filter name_filter)
       consumer 50 0"

text \<open>A caller that takes every yielded connection, as \<^verbatim>\<open>list(list_connections(...))\<close>.\<close>

definition take_all :: "pyval \<Rightarrow> error + bool" where
  "take_all connection = Inr True"

text \<open>The condition of the list comprehension in \<^verbatim>\<open>get_connection_by_name\<close>:
  \<^verbatim>\<open>connection.name == connection_name\<close>.\<close>

definition name_equals :: "string \<Rightarrow> pyval \<Rightarrow> error + bool" where
  "name_equals connection_name connection =
     on_ok (getattr connection ''name'') (\<lambda>n. Inr (n = PStr connection_name))"

definition get_connection_by_name ::
  "airbyte_instance \<Rightarrow> string \<Rightarrow> string \<Rightarrow> (error + pyval) option" where
  "get_connection_by_name airbyte_instance workspace_id connection_name =
     (case list_connections airbyte_instance workspace_id ArgNone (name_equals connection_name) of
        None \<Rightarrow> None
      | Some (found, Some e) \<Rightarrow> Some (Inl e)
      | Some (found, None) \<Rightarrow>
          Some (if length found = 0 then Inl AirbyteMissingResourceError
                else if length found > 1 then Inl AirbyteMultipleResourcesError
                else Inr (found ! 0)))"

text \<open>
  A server that holds the connections \<open>cs\<close> of a workspace and answers every list request
  with status 200 and the page \<open>cs[offset : offset + limit]\<close>.
\<close>

definition connections_page :: "pyval list \<Rightarrow> response" where
  "connections_page page =
     \<lparr>status_code = 200,
      attrs = [(''connections_response'', PObj ''ConnectionsResponse'' [(''data'', PList page)])]\<rparr>"

definition serves_connections :: "airbyte_instance \<Rightarrow> string \<Rightarrow> pyval list \<Rightarrow> bool" where
  "serves_connections airbyte_instance workspace_id cs \<longleftrightarrow>
     (\<forall>limit offset.
        airbyte_instance (ListConnectionsRequest [workspace_id] False limit offset) =
          connections_page (take limit (drop offset cs)))"

definition paging_server :: "pyval list \<Rightarrow> airbyte_instance" where
  "paging_server cs request =
     (case request of
        ListConnectionsRequest ws deleted limit offset \<Rightarrow>
          connections_page (take limit (drop offset cs))
      | _ \<Rightarrow> \<lparr>status_code = 404, attrs = []\<rparr>)"

definition has_name :: "pyval \<Rightarrow> string \<Rightarrow> bool" where
  "has_name connection n \<longleftrightarrow> getattr connection ''name'' = Inr (PStr n)"

subsection \<open>Destinations\<close>

text \<open>
  \<^verbatim>\<open>json.loads\<close> and the \<^verbatim>\<open>from_dict\<close> constructors of the SDK's configuration models are
  library code: parameters. \<open>from_dict cls d\<close> stands for \<^verbatim>\<open>models.<cls>.from_dict(d)\<close>.
  In \<^verbatim>\<open>response.destination_response.configuration = M.from_dict(raw_configuration)\<close>
  the right-hand side is evaluated first; the assignment changes the object that
  \<^verbatim>\<open>response.destination_response\<close> refers to, which is the object returned at the end.
\<close>

definition assign_configuration ::
  "(string \<Rightarrow> pyval \<Rightarrow> error + pyval) \<Rightarrow> string \<Rightarrow> pyval \<Rightarrow> response \<Rightarrow> error + response" where
  "assign_configuration from_dict cls raw_configuration response =
     on_ok (from_dict cls raw_configuration) (\<lambda>configuration.
     on_ok (attr response ''destination_response'') (\<lambda>destination_response.
     on_ok (setattr destination_response ''configuration'' configuration) (\<lambda>updated.
       Inr (response\<lparr>attrs := set_item ''destination_response'' updated (attrs response)\<rparr>))))"

definition loads_text :: "(string \<Rightarrow> error + pyval) \<Rightarrow> pyval \<Rightarrow> error + pyval" where
  "loads_text json_loads t = (case t of PStr s \<Rightarrow> json_loads s | _ \<Rightarrow> Inl TypeError)"

text \<open>The four \<^verbatim>\<open>if destination_type == ...\<close> statements, one after the other.\<close>

definition assign_by_type ::
  "(string \<Rightarrow> pyval \<Rightarrow> error + pyval) \<Rightarrow> pyval \<Rightarrow> pyval \<Rightarrow> response \<Rightarrow> error + response" where
  "assign_by_type from_dict destination_type raw_configuration response =
     on_ok (if destination_type = PStr ''snowflake''
            then assign_configuration from_dict ''DestinationSnowflake'' raw_configuration response
            else Inr response) (\<lambda>r1.
     on_ok (if destination_type = PStr ''bigquery''
            then assign_configuration from_dict ''DestinationBigquery'' raw_configuration r1
            else Inr r1) (\<lambda>r2.
     on_ok (if destination_type = PStr ''postgres''
            then assign_configuration from_dict ''DestinationPostgres'' raw_configuration r2
            else Inr r2) (\<lambda>r3.
     if destination_type = PStr ''duckdb''
     then assign_configuration from_dict ''DestinationDuckdb'' raw_configuration r3
     else Inr r3)))"

definition get_destination ::
  "airbyte_instance \<Rightarrow> (string \<Rightarrow> error + pyval) \<Rightarrow> (string \<Rightarrow> pyval \<Rightarrow> error + pyval)
   \<Rightarrow> string \<Rightarrow> error + pyval" where
  "get_destination airbyte_instance json_loads from_dict destination_id =
     (let response = airbyte_instance (GetDestinationRequest destination_id) in
      if status_ok (status_code response) then
        on_ok (attr response ''raw_response'') (\<lambda>raw.
        on_ok (getattr raw ''text'') (\<lambda>t.
        on_ok (loads_text json_loads t) (\<lambda>raw_response.
        on_ok (getitem raw_response ''configuration'') (\<lambda>raw_configuration.
        on_ok (dict_get raw_response ''destinationType'') (\<lambda>destination_type.
        on_ok (assign_by_type from_dict destination_type raw_configuration response) (\<lambda>r4.
        attr r4 ''destination_response''))))))
      else raise_missing_with_text response)"

text \<open>The configuration model class that \<^verbatim>\<open>get_destination\<close> uses for a value of
  \<^verbatim>\<open>destinationType\<close>, if it uses one.\<close>

fun typed_model :: "pyval \<Rightarrow> string option" where
  "typed_model (PStr dt) =
     (if dt = ''snowflake'' then Some ''DestinationSnowflake''
      else if dt = ''bigquery'' then Some ''DestinationBigquery''
      else if dt = ''postgres'' then Some ''DestinationPostgres''
      else if dt = ''duckdb'' then Some ''DestinationDuckdb''
      else None)"
| "typed_model v = None"

subsection \<open>The legacy Config API\<close>

text \<open>
  \<^verbatim>\<open>requests.post\<close> is a parameter: it answers a request with a response or raises (no
  connection). The result of \<^verbatim>\<open>check_connector_config\<close> comes with the list of HTTP requests
  it sent. \<open>connector_type_value\<close> is \<^verbatim>\<open>connector_type.value\<close>.
\<close>

record http_request =
  url :: string
  headers :: "(string \<times> string) list"
  json :: pyval

record http_response =
  http_status_code :: int
  http_text :: string

definition transform_legacy_api_root :: "string \<Rightarrow> error + string" where
  "transform_legacy_api_root api_root =
     (if api_root = CLOUD_API_ROOT then Inr LEGACY_API_ROOT else Inl NotImplementedError)"

text \<open>\<^verbatim>\<open>Response.raise_for_status\<close> raises for the client and server error codes.\<close>

definition raise_for_status :: "http_response \<Rightarrow> error + unit" where
  "raise_for_status r =
     (if 400 \<le> http_status_code r \<and> http_status_code r < 600 then Inl HTTPError else Inr ())"

definition check_request :: "string \<Rightarrow> string \<Rightarrow> string \<Rightarrow> string \<Rightarrow> http_request" where
  "check_request legacy_api_root connector_type_value connector_id api_key =
     \<lparr>url = legacy_api_root @ ''/'' @ connector_type_value @ ''s/check_connection'',
      headers = [(''accept'', ''application/json''),
                 (''content-type'', ''application/json''),
                 (''Authorization'', ''Bearer '' @ api_key)],
      json = PDict [(connector_type_value @ ''Id'', PStr connector_id)]\<rparr>"

definition check_connector_config ::
  "(http_request \<Rightarrow> error + http_response) \<Rightarrow> (string \<Rightarrow> error + pyval)
   \<Rightarrow> string \<Rightarrow> string \<Rightarrow> string \<Rightarrow> string \<Rightarrow> string \<Rightarrow> (error + unit) \<times> http_request list" where
  "check_connector_config post json_loads connector_id connector_type_value workspace_id
     api_key api_root =
     (case transform_legacy_api_root api_root of
        Inl e \<Rightarrow> (Inl e, [])
      | Inr legacy_api_root \<Rightarrow>
          (let request = check_request legacy_api_root connector_type_value connector_id api_key
           in (on_ok (post request) (\<lambda>response.
               on_ok (raise_for_status response) (\<lambda>u.
               on_ok (json_loads (http_text response)) (\<lambda>response_json.
               on_ok (dict_get response_json ''status'') (\<lambda>status.
                 if \<not> (status = PStr ''succeeded'') then
                   on_ok (dict_get response_json ''message'') (\<lambda>message.
                     Inl AirbyteConnectorCheckFailedError)
                 else Inr ())))),
               [request])))"

section \<open>The BigQuery cache (\<^verbatim>\<open>airbyte/caches/bigquery.py\<close>)\<close>

subsection \<open>Type conversion\<close>

text \<open>
  A SQLAlchemy type object: the name of its class and the names of the classes it
  inherits from. \<^verbatim>\<open>isinstance(x, C)\<close> holds for the class itself and for every base class.
  The generic converter \<^verbatim>\<open>SQLTypeConverter.to_sql_type\<close> (\<^verbatim>\<open>airbyte/types.py\<close>) is not among
  the sources: it is the parameter \<open>super_to_sql_type\<close>, and it may raise.
\<close>

datatype type_engine = TypeEngine (class_name: string) (base_classes: "string list")

definition isinstance :: "type_engine \<Rightarrow> string \<Rightarrow> bool" where
  "isinstance t c \<longleftrightarrow> c = class_name t \<or> c \<in> set (base_classes t)"

definition to_sql_type :: "(pyval \<Rightarrow> error + type_engine) \<Rightarrow> pyval \<Rightarrow> error + string" where
  "to_sql_type super_to_sql_type json_schema_property_def =
     on_ok (super_to_sql_type json_schema_property_def) (\<lambda>sql_type.
       if isinstance sql_type ''VARCHAR'' then Inr ''String''
       else if isinstance sql_type ''BIGINT'' then Inr ''INT64''
       else Inr (class_name sql_type))"

subsection \<open>The warehouse\<close>

text \<open>
  A table is identified by project, dataset and table name. The warehouse holds, for each
  table that exists, the data frames appended to it, oldest first, and the trace of the
  calls that changed it. A data frame is its columns, in order, each with its cells.
\<close>

type_synonym dataframe = "(string \<times> pyval list) list"

type_synonym table_id = "string \<times> string \<times> string"

datatype event = CreateTable table_id | Append table_id dataframe

record warehouse =
  tables :: "(table_id \<times> dataframe list) list"
  trace :: "event list"

record BigQueryCacheConfig =
  project :: string
  credentials_path :: string
  schema_name :: string

text \<open>
  The libraries the processor calls, and the naming of staging tables, are parameters:
  \<open>read_parquet p\<close> is \<^verbatim>\<open>ParquetFile(p).read().to_pandas()\<close>, \<open>from_service_account_file\<close> is
  \<^verbatim>\<open>service_account.Credentials.from_service_account_file\<close>, \<open>to_datetime\<close> is
  \<^verbatim>\<open>pd.to_datetime\<close> on one column; each may raise. \<open>get_temp_table_name\<close> makes the name of the
  staging table from the stream name and the batch id.
\<close>

record environment =
  read_parquet :: "string \<Rightarrow> error + dataframe"
  from_service_account_file :: "string \<Rightarrow> error + string"
  to_datetime :: "pyval list \<Rightarrow> error + pyval list"
  get_temp_table_name :: "string \<Rightarrow> string \<Rightarrow> string"

definition fully_qualified :: "BigQueryCacheConfig \<Rightarrow> string \<Rightarrow> string" where
  "fully_qualified config table_name = ''`'' @ schema_name config @ ''.'' @ table_name @ ''`''"

text \<open>\<^verbatim>\<open>inspector.get_table_names(schema=...)\<close>: for BigQuery the names of the tables of the
  dataset, each prefixed with the dataset name (as the docstring of \<^verbatim>\<open>_get_tables_list\<close>
  says).\<close>

definition get_table_names :: "BigQueryCacheConfig \<Rightarrow> warehouse \<Rightarrow> string \<Rightarrow> string list" where
  "get_table_names config w schema =
     map (\<lambda>((p, d, t), frames). d @ ''.'' @ t)
       (filter (\<lambda>((p, d, t), frames). p = project config \<and> d = schema) (tables w))"

text \<open>\<^verbatim>\<open>_get_tables_list\<close>: \<^verbatim>\<open>table.replace(schema_prefix, '', 1)\<close> on a name that starts with
  the prefix removes that first occurrence, the prefix itself.\<close>

definition get_tables_list :: "BigQueryCacheConfig \<Rightarrow> warehouse \<Rightarrow> string list" where
  "get_tables_list config w =
     (let tables = get_table_names config w (schema_name config);
          schema_prefix = schema_name config @ ''.''
      in map (\<lambda>table. if starts_with schema_prefix table
                       then drop (length schema_prefix) table else table) tables)"

text \<open>
  Modelled from the spec: \<^verbatim>\<open>_table_exists\<close> and \<^verbatim>\<open>_create_table_for_loading\<close> of the
  processor's base class (\<^verbatim>\<open>SqlProcessorBase\<close>), which is not among the sources. The spec
  has the processor "create staging table" with "idempotent table creation", for a batch
  "loaded into a staging table": a table of the cache's dataset exists when it is listed
  there; creating the staging table for a stream and batch adds an empty table of that
  name to the cache's dataset unless one exists, and returns the name.
\<close>

definition table_exists :: "BigQueryCacheConfig \<Rightarrow> warehouse \<Rightarrow> string \<Rightarrow> bool" where
  "table_exists config w table_name \<longleftrightarrow> table_name \<in> set (get_tables_list config w)"

definition staging_table :: "BigQueryCacheConfig \<Rightarrow> string \<Rightarrow> table_id" where
  "staging_table config table_name = (project config, schema_name config, table_name)"

definition create_table_for_loading ::
  "environment \<Rightarrow> BigQueryCacheConfig \<Rightarrow> string \<Rightarrow> string \<Rightarrow> warehouse \<Rightarrow> string \<times> warehouse" where
  "create_table_for_loading env config stream_name batch_id w =
     (let temp = get_temp_table_name env stream_name batch_id;
          table = staging_table config temp
      in (temp,
          w\<lparr>tables := (if table \<in> fst ` set (tables w) then tables w
                        else tables w @ [(table, [])]),
            trace := trace w @ [CreateTable table]\<rparr>))"

text \<open>\<^verbatim>\<open>pandas_gbq.to_gbq(dataframe, destination_table, project_id, if_exists="append")\<close>:
  the frame is appended to the destination table, which is created when it does not
  exist.\<close>

fun append_frame :: "table_id \<Rightarrow> dataframe \<Rightarrow> (table_id \<times> dataframe list) list
    \<Rightarrow> (table_id \<times> dataframe list) list" where
  "append_frame table df [] = [(table, [df])]"
| "append_frame table df ((table', frames) # ts) =
     (if table = table' then (table', frames @ [df]) # ts
      else (table', frames) # append_frame table df ts)"

definition to_gbq :: "dataframe \<Rightarrow> string \<Rightarrow> string \<Rightarrow> string \<Rightarrow> warehouse \<Rightarrow> warehouse" where
  "to_gbq df dataset table_name project_id w =
     w\<lparr>tables := append_frame (project_id, dataset, table_name) df (tables w),
       trace := trace w @ [Append (project_id, dataset, table_name) df]\<rparr>"

text \<open>\<^verbatim>\<open>dataframe[c] = pd.to_datetime(dataframe[c])\<close>: reading a column the frame does not
  have raises \<^verbatim>\<open>KeyError\<close>.\<close>

fun set_column :: "string \<Rightarrow> pyval list \<Rightarrow> dataframe \<Rightarrow> dataframe" where
  "set_column c cells [] = [(c, cells)]"
| "set_column c cells ((c', cells') # cols) =
     (if c = c' then (c, cells) # cols else (c', cells') # set_column c cells cols)"

definition convert_column :: "environment \<Rightarrow> string \<Rightarrow> dataframe \<Rightarrow> error + dataframe" where
  "convert_column env c df =
     (case map_of df c of
        None \<Rightarrow> Inl (KeyError c)
      | Some cells \<Rightarrow> on_ok (to_datetime env cells) (\<lambda>cells'. Inr (set_column c cells' df)))"

subsection \<open>\<^verbatim>\<open>BigQuerySqlProcessor._write_files_to_new_table\<close>\<close>

text \<open>
  The \<^verbatim>\<open>for\<close> loop over the files. An exception leaves the warehouse as it is at that
  moment, so the result is the outcome together with the warehouse. \<^verbatim>\<open>print(dataframe)\<close>
  writes to standard output only and is left out.
\<close>

fun write_files ::
  "environment \<Rightarrow> BigQueryCacheConfig \<Rightarrow> string \<Rightarrow> string list \<Rightarrow> warehouse
   \<Rightarrow> (error + unit) \<times> warehouse" where
  "write_files env config temp_table_name [] w = (Inr (), w)"
| "write_files env config temp_table_name (file_path # files) w =
     (case read_parquet env file_path of
        Inl e \<Rightarrow> (Inl e, w)
      | Inr dataframe \<Rightarrow>
          if \<not> table_exists config w temp_table_name then (Inl AirbyteLibInternalError, w)
          else
            (case from_service_account_file env (credentials_path config) of
               Inl e \<Rightarrow> (Inl e, w)
             | Inr credentials \<Rightarrow>
                 (case convert_column env ''created_at'' dataframe of
                    Inl e \<Rightarrow> (Inl e, w)
                  | Inr df1 \<Rightarrow>
                      (case convert_column env ''updated_at'' df1 of
                         Inl e \<Rightarrow> (Inl e, w)
                       | Inr df2 \<Rightarrow>
                           write_files env config temp_table_name files
                             (to_gbq df2 ''airbyte_raw'' temp_table_name
                                ''dataline-integration-testing'' w)))))"

definition write_files_to_new_table ::
  "environment \<Rightarrow> BigQueryCacheConfig \<Rightarrow> string list \<Rightarrow> string \<Rightarrow> string \<Rightarrow> warehouse
   \<Rightarrow> (error + string) \<times> warehouse" where
  "write_files_to_new_table env config files stream_name batch_id w =
     (case create_table_for_loading env config stream_name batch_id w of
        (temp_table_name, w1) \<Rightarrow>
          (case write_files env config temp_table_name files w1 of
             (Inl e, w2) \<Rightarrow> (Inl e, w2)
           | (Inr u, w2) \<Rightarrow> (Inr temp_table_name, w2)))"

section \<open>The JSONL file writer (\<^verbatim>\<open>airbyte/_processors/file/jsonl.py\<close>)\<close>

text \<open>
  An open file object: the bytes written to it so far, before compression (a
  \<^verbatim>\<open>GzipFile\<close> compresses what is written to it; reading the file back through gzip gives
  these bytes). Writing to a closed file raises \<^verbatim>\<open>ValueError\<close>. \<^verbatim>\<open>orjson.dumps\<close> is a
  parameter, and raises on a value it cannot encode.
\<close>

record file_writer =
  writer_path :: string
  gzipped :: bool
  closed :: bool
  written :: string

definition newline :: char where
  "newline = CHR 0x0A"

definition default_cache_file_suffix :: string where
  "default_cache_file_suffix = ''.jsonl.gz''"

definition open_new_file :: "string \<Rightarrow> file_writer" where
  "open_new_file path = \<lparr>writer_path = path, gzipped = True, closed = False, written = []\<rparr>"

definition file_write :: "file_writer \<Rightarrow> string \<Rightarrow> error + file_writer" where
  "file_write f bytes =
     (if closed f then Inl ValueError else Inr (f\<lparr>written := written f @ bytes\<rparr>))"

definition write_record_dict ::
  "(pyval \<Rightarrow> error + string) \<Rightarrow> pyval \<Rightarrow> file_writer \<Rightarrow> error + file_writer" where
  "write_record_dict dumps record_dict open_file_writer =
     on_ok (dumps record_dict) (\<lambda>line. file_write open_file_writer (line @ [newline]))"

text \<open>A batch: \<^verbatim>\<open>_write_record_dict\<close> called for each record in turn on the same open file.\<close>

fun write_record_dicts ::
  "(pyval \<Rightarrow> error + string) \<Rightarrow> pyval list \<Rightarrow> file_writer \<Rightarrow> error + file_writer" where
  "write_record_dicts dumps [] f = Inr f"
| "write_record_dicts dumps (r # rs) f =
     on_ok (write_record_dict dumps r f) (write_record_dicts dumps rs)"

text \<open>The lines of a file, as a reader of JSONL splits it: each line ends at a newline
  byte; bytes after the last newline form a last line.\<close>

fun lines_from :: "string \<Rightarrow> string \<Rightarrow> string list" where
  "lines_from cur [] = (if cur = [] then [] else [cur])"
| "lines_from cur (c # cs) =
     (if c = newline then cur # lines_from [] cs else lines_from (cur @ [c]) cs)"

definition file_lines :: "string \<Rightarrow> string list" where
  "file_lines bytes = lines_from [] bytes"

section \<open>Write strategies\<close>

text \<open>
  Modelled from the spec: the enumeration \<^verbatim>\<open>WriteStrategy\<close> of \<^verbatim>\<open>airbyte/strategies.py\<close>,
  which \<^verbatim>\<open>airbyte/_writers/base.py\<close> only imports for its type annotations and which is
  not among the sources. The spec's glossary: "policy governing how staged records are
  merged into a target table (append-only, full replace, or upsert-by-key)".
\<close>

datatype WriteStrategy = APPEND | REPLACE | MERGE

definition write_strategies :: "WriteStrategy list" where
  "write_strategies = [APPEND, REPLACE, MERGE]"

section \<open>Concrete inputs\<close>

text \<open>A frame with the two timestamp columns of the faker source, and one without them.\<close>

definition faker_frame :: dataframe where
  "faker_frame =
     [(''id'', [PInt 1]),
      (''created_at'', [PStr ''2024-01-01T00:00:00'']),
      (''updated_at'', [PStr ''2024-01-02T00:00:00''])]"

definition plain_frame :: dataframe where
  "plain_frame = [(''id'', [PInt 2]), (''title'', [PStr ''x''])]"

definition example_env :: environment where
  "example_env =
     \<lparr>read_parquet = (\<lambda>p. if p = ''batch_0.parquet'' then Inr faker_frame
                           else if p = ''batch_1.parquet'' then Inr plain_frame
                           else Inl (ExternalError ''FileNotFoundError'')),
      from_service_account_file = (\<lambda>p. Inr ''credentials''),
      to_datetime = (\<lambda>cells. Inr cells),
      get_temp_table_name = (\<lambda>stream_name batch_id. stream_name @ ''_'' @ batch_id)\<rparr>"

definition example_config :: BigQueryCacheConfig where
  "example_config =
     \<lparr>project = ''my-project'', credentials_path = ''/secrets/bq.json'',
      schema_name = ''my_dataset''\<rparr>"

definition empty_warehouse :: warehouse where
  "empty_warehouse = \<lparr>tables = [], trace = []\<rparr>"

text \<open>A generic converter in the style of \<^verbatim>\<open>SQLTypeConverter\<close>, returning SQLAlchemy types
  with their base classes.\<close>

definition example_converter :: "pyval \<Rightarrow> error + type_engine" where
  "example_converter d =
     (case dict_get d ''type'' of
        Inr (PStr ''string'') \<Rightarrow> Inr (TypeEngine ''VARCHAR'' [''String'', ''TypeEngine''])
      | Inr (PStr ''integer'') \<Rightarrow>
          Inr (TypeEngine ''BIGINT'' [''BigInteger'', ''Integer'', ''TypeEngine''])
      | Inr (PStr ''boolean'') \<Rightarrow> Inr (TypeEngine ''BOOLEAN'' [''Boolean'', ''TypeEngine''])
      | _ \<Rightarrow> Inr (TypeEngine ''JSON'' [''TypeEngine'']))"

text \<open>The response of the SDK to a source request: status, content type, the raw HTTP
  response and the payload field \<^verbatim>\<open>source_response\<close>.\<close>

definition source_found :: response where
  "source_found =
     \<lparr>status_code = 200,
      attrs = [(''content_type'', PStr ''application/json''),
               (''raw_response'', PObj ''Response'' [(''text'', PStr ''{}'')]),
               (''source_response'',
                  PObj ''SourceResponse''
                    [(''source_id'', PStr ''s1''), (''name'', PStr ''faker'')])]\<rparr>"

text \<open>A destination response of the SDK, and a raw body for each of two destination
  types; \<open>example_from_dict\<close> builds the typed model from the fields of the raw
  configuration.\<close>

definition destination_found :: "string \<Rightarrow> response" where
  "destination_found body =
     \<lparr>status_code = 200,
      attrs = [(''content_type'', PStr ''application/json''),
               (''raw_response'', PObj ''Response'' [(''text'', PStr body)]),
               (''destination_response'',
                  PObj ''DestinationResponse''
                    [(''configuration'', PDict [(''destination_path'', PStr ''temp_db'')]),
                     (''destination_id'', PStr ''d1''),
                     (''name'', PStr ''warehouse'')])]\<rparr>"

definition example_loads :: "string \<Rightarrow> error + pyval" where
  "example_loads body =
     (if body = ''duckdb-body'' then
        Inr (PDict [(''destinationType'', PStr ''duckdb''),
                    (''configuration'', PDict [(''destination_path'', PStr ''temp_db'')])])
      else if body = ''mysql-body'' then
        Inr (PDict [(''destinationType'', PStr ''mysql''),
                    (''configuration'', PDict [(''host'', PStr ''db'')])])
      else if body = ''succeeded-body'' then Inr (PDict [(''status'', PStr ''succeeded'')])
      else if body = ''failed-body'' then
        Inr (PDict [(''status'', PStr ''failed''), (''message'', PStr ''bad credentials'')])
      else Inl (ExternalError ''JSONDecodeError''))"

definition example_from_dict :: "string \<Rightarrow> pyval \<Rightarrow> error + pyval" where
  "example_from_dict cls d =
     (case d of PDict kvs \<Rightarrow> Inr (PObj cls kvs) | _ \<Rightarrow> Inl TypeError)"

text \<open>A connection of a workspace, as the SDK returns it.\<close>

definition connection :: "string \<Rightarrow> string \<Rightarrow> pyval" where
  "connection cid n = PObj ''ConnectionResponse'' [(''connection_id'', PStr cid), (''name'', PStr n)]"

text \<open>An HTTP endpoint that answers every request with status 200 and the given body.\<close>

definition post_answering :: "string \<Rightarrow> http_request \<Rightarrow> error + http_response" where
  "post_answering body request = Inr \<lparr>http_status_code = 200, http_text = body\<rparr>"

text \<open>A serializer for two records, in the compact form of \<^verbatim>\<open>orjson\<close>; \<open>CHR 0x22\<close> is the
  double quote.\<close>

definition id_line :: string where
  "id_line = ''{'' @ [CHR 0x22] @ ''id'' @ [CHR 0x22] @ '':1}''"

definition example_encoding :: "pyval \<Rightarrow> string" where
  "example_encoding r = (if r = PDict [] then ''{}'' else id_line)"

definition example_dumps :: "pyval \<Rightarrow> error + string" where
  "example_dumps r =
     (if r = PDict [] \<or> r = PDict [(''id'', PInt 1)] then Inr (example_encoding r)
      else Inl TypeError)"

section \<open>Properties of the BigQuery cache\<close>

lemma starts_with_append: "starts_with p (p @ t)"
  by (induction p) simp_all

lemma starts_with_append_Cons: "starts_with (d @ [c]) (d @ c # t)"
  using starts_with_append [of "d @ [c]" t] by simp

lemma get_tables_list_eq:
  "get_tables_list config w =
     map (\<lambda>((p, d, t), frames). t)
       (filter (\<lambda>((p, d, t), frames). p = project config \<and> d = schema_name config) (tables w))"
  unfolding get_tables_list_def get_table_names_def Let_def map_map
  by (rule map_cong [OF refl]) (auto simp: starts_with_append_Cons)

text \<open>A table exists for the processor exactly when the warehouse holds it in the cache's
  own project and dataset.\<close>

lemma table_exists_iff:
  "table_exists config w t \<longleftrightarrow> staging_table config t \<in> fst ` set (tables w)"
  unfolding table_exists_def get_tables_list_eq staging_table_def
  by force

text \<open>
  C1. The claim: for every non-empty list of Parquet batch files,
  \<^verbatim>\<open>_write_files_to_new_table\<close> creates the staging table, appends each file's records to
  that same table in list order and returns its name. The run below is on a cache whose
  dataset is \<^verbatim>\<open>my_dataset\<close> and two files, the second without a \<^verbatim>\<open>created_at\<close> column. The
  staging table \<^verbatim>\<open>my_dataset.users_b1\<close> is created and stays empty; the first file is
  appended to \<^verbatim>\<open>airbyte_raw.users_b1\<close> of project \<^verbatim>\<open>dataline-integration-testing\<close>, a table
  that the load creates; the second file raises \<^verbatim>\<open>KeyError\<close>, so no name is returned.
\<close>

theorem write_files_to_new_table_diverges:
  "write_files_to_new_table example_env example_config
     [''batch_0.parquet'', ''batch_1.parquet''] ''users'' ''b1'' empty_warehouse
   = (Inl (KeyError ''created_at''),
      \<lparr>tables =
         [((''my-project'', ''my_dataset'', ''users_b1''), []),
          ((''dataline-integration-testing'', ''airbyte_raw'', ''users_b1''), [faker_frame])],
       trace =
         [CreateTable (''my-project'', ''my_dataset'', ''users_b1''),
          Append (''dataline-integration-testing'', ''airbyte_raw'', ''users_b1'') faker_frame]\<rparr>)"
  by (simp add: write_files_to_new_table_def create_table_for_loading_def staging_table_def
      example_env_def example_config_def empty_warehouse_def table_exists_iff
      convert_column_def on_ok_def to_gbq_def faker_frame_def plain_frame_def Let_def)

text \<open>
  C2. If the staging table does not exist when a file, already read, is about to be
  loaded, the processor raises \<^verbatim>\<open>AirbyteLibInternalError\<close> and the warehouse is left as it
  was: nothing is loaded and no table is created. The statement is about the loop from
  any warehouse state, so it covers every iteration.
\<close>

theorem write_files_missing_table:
  assumes "read_parquet env fp = Inr df" and "\<not> table_exists config w t"
  shows "write_files env config t (fp # files) w = (Inl AirbyteLibInternalError, w)"
  using assms by simp

theorem write_files_missing_table_witness:
  "read_parquet example_env ''batch_0.parquet'' = Inr faker_frame \<and>
   \<not> table_exists example_config empty_warehouse ''users_b1'' \<and>
   write_files example_env example_config ''users_b1'' [''batch_0.parquet'', ''batch_1.parquet'']
     empty_warehouse = (Inl AirbyteLibInternalError, empty_warehouse)"
proof -
  have r: "read_parquet example_env ''batch_0.parquet'' = Inr faker_frame"
    by (simp add: example_env_def)
  have t: "\<not> table_exists example_config empty_warehouse ''users_b1''"
    by (simp add: table_exists_iff empty_warehouse_def)
  show ?thesis
    using r t write_files_missing_table [OF r t, of "[''batch_1.parquet'']"] by simp
qed

text \<open>
  C3. \<^verbatim>\<open>BigQueryConverter.to_sql_type\<close> returns \<^verbatim>\<open>String\<close> when the generic conversion
  yields an instance of \<^verbatim>\<open>VARCHAR\<close>, \<^verbatim>\<open>INT64\<close> when it yields an instance of \<^verbatim>\<open>BIGINT\<close> (that is
  not also one of \<^verbatim>\<open>VARCHAR\<close>, which is tested first), and the name of the generic type's
  class in every other case.
\<close>

theorem to_sql_type_cases:
  assumes "super_to_sql_type d = Inr t"
  shows "(isinstance t ''VARCHAR'' \<longrightarrow> to_sql_type super_to_sql_type d = Inr ''String'') \<and>
         (\<not> isinstance t ''VARCHAR'' \<and> isinstance t ''BIGINT'' \<longrightarrow>
            to_sql_type super_to_sql_type d = Inr ''INT64'') \<and>
         (\<not> isinstance t ''VARCHAR'' \<and> \<not> isinstance t ''BIGINT'' \<longrightarrow>
            to_sql_type super_to_sql_type d = Inr (class_name t))"
  using assms by (simp add: to_sql_type_def on_ok_def)

theorem to_sql_type_cases_witness:
  "to_sql_type example_converter (PDict [(''type'', PStr ''string'')]) = Inr ''String'' \<and>
   to_sql_type example_converter (PDict [(''type'', PStr ''integer'')]) = Inr ''INT64'' \<and>
   to_sql_type example_converter (PDict [(''type'', PStr ''boolean'')]) = Inr ''BOOLEAN''"
proof -
  have s: "example_converter (PDict [(''type'', PStr ''string'')]) =
      Inr (TypeEngine ''VARCHAR'' [''String'', ''TypeEngine''])"
    by (simp add: example_converter_def)
  have i: "example_converter (PDict [(''type'', PStr ''integer'')]) =
      Inr (TypeEngine ''BIGINT'' [''BigInteger'', ''Integer'', ''TypeEngine''])"
    by (simp add: example_converter_def)
  have b: "example_converter (PDict [(''type'', PStr ''boolean'')]) =
      Inr (TypeEngine ''BOOLEAN'' [''Boolean'', ''TypeEngine''])"
    by (simp add: example_converter_def)
  show ?thesis
    using to_sql_type_cases [of example_converter _ _, OF s]
      to_sql_type_cases [of example_converter _ _, OF i]
      to_sql_type_cases [of example_converter _ _, OF b]
    by (simp add: isinstance_def)
qed

section \<open>Properties of the JSONL file writer\<close>

lemma write_record_dict_open:
  "\<not> closed g \<Longrightarrow> dumps r = Inr line \<Longrightarrow>
   write_record_dict dumps r g = Inr (g\<lparr>written := written g @ line @ [newline]\<rparr>)"
  by (simp add: write_record_dict_def on_ok_def file_write_def)

lemma write_record_dicts_open:
  "\<not> closed g \<Longrightarrow> \<forall>r\<in>set rs. dumps r = Inr (enc r) \<Longrightarrow>
   write_record_dicts dumps rs g =
     Inr (g\<lparr>written := written g @ concat (map (\<lambda>r. enc r @ [newline]) rs)\<rparr>)"
proof (induction rs arbitrary: g)
  case Nil
  then show ?case by simp
next
  case (Cons r rs)
  let ?g = "g\<lparr>written := written g @ enc r @ [newline]\<rparr>"
  have w: "write_record_dict dumps r g = Inr ?g"
    using Cons.prems by (simp add: write_record_dict_open)
  have "\<not> closed ?g" using Cons.prems by simp
  moreover have "\<forall>r\<in>set rs. dumps r = Inr (enc r)" using Cons.prems by simp
  ultimately have "write_record_dicts dumps rs ?g =
      Inr (?g\<lparr>written := written ?g @ concat (map (\<lambda>r. enc r @ [newline]) rs)\<rparr>)"
    by (rule Cons.IH)
  with w show ?case by (simp add: on_ok_def)
qed

lemma lines_from_line:
  "newline \<notin> set l \<Longrightarrow> lines_from cur (l @ newline # rest) = (cur @ l) # lines_from [] rest"
  by (induction l arbitrary: cur) auto

lemma file_lines_concat:
  "\<forall>r\<in>set rs. newline \<notin> set (enc r) \<Longrightarrow>
   file_lines (concat (map (\<lambda>r. enc r @ [newline]) rs)) = map enc rs"
  unfolding file_lines_def
  by (induction rs) (simp_all add: lines_from_line)

text \<open>
  C4. On an open file, \<^verbatim>\<open>_write_record_dict\<close> appends exactly the serialization of the
  record and one newline byte. So a batch file opened by \<^verbatim>\<open>_open_new_file\<close> (a gzip stream;
  the suffix of batch files is \<^verbatim>\<open>.jsonl.gz\<close>) and written record by record holds the
  serializations in write order, each followed by a newline; when no serialization
  contains a newline byte (as for the compact output of \<^verbatim>\<open>orjson\<close>), its lines are the
  serializations of the records, one line per record.
\<close>

theorem jsonl_batch_file:
  assumes "\<forall>r\<in>set rs. dumps r = Inr (enc r)"
  shows "(\<forall>r\<in>set rs. \<forall>g. \<not> closed g \<longrightarrow>
            write_record_dict dumps r g = Inr (g\<lparr>written := written g @ enc r @ [newline]\<rparr>)) \<and>
         write_record_dicts dumps rs (open_new_file path) =
           Inr ((open_new_file path)\<lparr>written := concat (map (\<lambda>r. enc r @ [newline]) rs)\<rparr>) \<and>
         gzipped (open_new_file path) \<and> default_cache_file_suffix = ''.jsonl.gz'' \<and>
         ((\<forall>r\<in>set rs. newline \<notin> set (enc r)) \<longrightarrow>
            file_lines (concat (map (\<lambda>r. enc r @ [newline]) rs)) = map enc rs)"
proof -
  have a: "\<forall>r\<in>set rs. \<forall>g. \<not> closed g \<longrightarrow>
            write_record_dict dumps r g = Inr (g\<lparr>written := written g @ enc r @ [newline]\<rparr>)"
    using assms by (simp add: write_record_dict_open)
  have o: "\<not> closed (open_new_file path)" by (simp add: open_new_file_def)
  have b: "write_record_dicts dumps rs (open_new_file path) =
           Inr ((open_new_file path)\<lparr>written := concat (map (\<lambda>r. enc r @ [newline]) rs)\<rparr>)"
    using write_record_dicts_open [OF o assms] by (simp add: open_new_file_def)
  have c: "gzipped (open_new_file path) \<and> default_cache_file_suffix = ''.jsonl.gz''"
    by (simp add: open_new_file_def default_cache_file_suffix_def)
  from a b c show ?thesis by (simp add: file_lines_concat)
qed

theorem jsonl_batch_file_witness:
  "write_record_dict example_dumps (PDict [(''id'', PInt 1)]) (open_new_file ''batch_0.jsonl.gz'')
     = Inr \<lparr>writer_path = ''batch_0.jsonl.gz'', gzipped = True, closed = False,
            written = id_line @ [newline]\<rparr> \<and>
   write_record_dicts example_dumps [PDict [], PDict [(''id'', PInt 1)]]
     (open_new_file ''batch_0.jsonl.gz'')
     = Inr \<lparr>writer_path = ''batch_0.jsonl.gz'', gzipped = True, closed = False,
            written = ''{}'' @ [newline] @ id_line @ [newline]\<rparr> \<and>
   file_lines (''{}'' @ [newline] @ id_line @ [newline]) = [''{}'', id_line]"
proof -
  have d: "\<forall>r\<in>set [PDict [], PDict [(''id'', PInt 1)]]. example_dumps r = Inr (example_encoding r)"
    by (simp add: example_dumps_def)
  have n: "\<forall>r\<in>set [PDict [], PDict [(''id'', PInt 1)]]. newline \<notin> set (example_encoding r)"
    by (simp add: example_encoding_def id_line_def newline_def)
  have o: "\<not> closed (open_new_file ''batch_0.jsonl.gz'')" by (simp add: open_new_file_def)
  note t = jsonl_batch_file [OF d, of "''batch_0.jsonl.gz''"]
  from t o have a: "write_record_dict example_dumps (PDict [(''id'', PInt 1)])
      (open_new_file ''batch_0.jsonl.gz'')
     = Inr ((open_new_file ''batch_0.jsonl.gz'')
         \<lparr>written := written (open_new_file ''batch_0.jsonl.gz'')
            @ example_encoding (PDict [(''id'', PInt 1)]) @ [newline]\<rparr>)"
    by simp
  from t have b: "write_record_dicts example_dumps [PDict [], PDict [(''id'', PInt 1)]]
     (open_new_file ''batch_0.jsonl.gz'')
     = Inr ((open_new_file ''batch_0.jsonl.gz'')
         \<lparr>written := concat (map (\<lambda>r. example_encoding r @ [newline])
            [PDict [], PDict [(''id'', PInt 1)]])\<rparr>)"
    by blast
  from t n have l: "file_lines (concat (map (\<lambda>r. example_encoding r @ [newline])
            [PDict [], PDict [(''id'', PInt 1)]]))
      = map example_encoding [PDict [], PDict [(''id'', PInt 1)]]"
    by blast
  have a': "write_record_dict example_dumps (PDict [(''id'', PInt 1)])
      (open_new_file ''batch_0.jsonl.gz'')
     = Inr \<lparr>writer_path = ''batch_0.jsonl.gz'', gzipped = True, closed = False,
            written = id_line @ [newline]\<rparr>"
    unfolding a by (simp add: open_new_file_def example_encoding_def)
  have b': "write_record_dicts example_dumps [PDict [], PDict [(''id'', PInt 1)]]
     (open_new_file ''batch_0.jsonl.gz'')
     = Inr \<lparr>writer_path = ''batch_0.jsonl.gz'', gzipped = True, closed = False,
            written = ''{}'' @ [newline] @ id_line @ [newline]\<rparr>"
    unfolding b by (simp add: open_new_file_def example_encoding_def)
  have l': "file_lines (''{}'' @ [newline] @ id_line @ [newline]) = [''{}'', id_line]"
    using l by (simp add: example_encoding_def)
  from a' b' l' show ?thesis by (intro conjI)
qed

section \<open>Properties of the write strategies\<close>

text \<open>
  C5. The write strategies are exactly three: append, replace and merge (upsert by
  primary key). Every strategy is one of the three, and the three are different.
\<close>

theorem write_strategy_exactly_three:
  "set write_strategies = UNIV \<and> distinct write_strategies \<and> length write_strategies = 3"
proof -
  have "\<And>s. s \<in> set write_strategies"
  proof -
    fix s show "s \<in> set write_strategies"
      by (cases s) (simp_all add: write_strategies_def)
  qed
  then have "set write_strategies = UNIV" by blast
  then show ?thesis by (simp add: write_strategies_def)
qed

section \<open>Properties of the API wrapper\<close>

text \<open>The getter of workspaces returns a payload exactly when the status is OK and the
  payload field of the response is that payload and is not empty.\<close>

lemma get_workspace_payload_iff:
  "get_workspace inst w = Inr p \<longleftrightarrow>
     status_ok (status_code (inst (GetWorkspaceRequest w))) \<and>
     attr (inst (GetWorkspaceRequest w)) ''workspace_response'' = Inr p \<and> truthy p"
  by (auto simp: get_workspace_def on_ok_def Let_def split: sum.splits)

text \<open>
  C6. The claim: each of \<^verbatim>\<open>get_workspace\<close>, \<^verbatim>\<open>get_connection\<close>, \<^verbatim>\<open>get_source\<close> and
  \<^verbatim>\<open>get_job_info\<close> returns the payload of the response exactly when the status is OK and
  the expected payload field is not empty. \<^verbatim>\<open>get_source\<close>, on a response with status 200
  and a \<^verbatim>\<open>source_response\<close>, reads \<^verbatim>\<open>connection_response\<close>, which a source response does not
  have: it neither returns the payload nor raises \<^verbatim>\<open>AirbyteMissingResourceError\<close>.
\<close>

theorem get_source_reads_connection_response:
  "get_source (\<lambda>request. source_found) ''s1'' = Inl (AttributeError ''connection_response'')"
  by (simp add: get_source_def source_found_def status_ok_def attr_def on_ok_def)

subsection \<open>Destinations\<close>

lemma on_ok_Inr: "on_ok (Inr v) f = f v"
  by (simp add: on_ok_def)

lemma on_ok_Inr_right: "on_ok m Inr = m"
  by (cases m) (simp_all add: on_ok_def)

lemma map_of_set_item:
  "map_of (set_item k v kvs) a = (if a = k then Some v else map_of kvs a)"
  by (induction kvs) auto

lemma getattr_setattr:
  "getattr (PObj cls (set_item k v fs)) a = (if a = k then Inr v else getattr (PObj cls fs) a)"
  by (simp add: map_of_set_item)

lemma assign_configuration_ok:
  assumes "from_dict m rc = Inr typed" and "attr r ''destination_response'' = Inr (PObj cls fs)"
  shows "on_ok (assign_configuration from_dict m rc r) (\<lambda>r4. attr r4 ''destination_response'')
           = Inr (PObj cls (set_item ''configuration'' typed fs))"
  using assms by (simp add: assign_configuration_def on_ok_def attr_def map_of_set_item)

lemma assign_by_type_typed:
  assumes "typed_model dtv = Some m"
  shows "assign_by_type from_dict dtv rc r = assign_configuration from_dict m rc r"
proof (cases dtv)
  case (PStr x)
  with assms show ?thesis
    by (simp add: assign_by_type_def on_ok_Inr on_ok_Inr_right split: if_splits)
qed (use assms in simp_all)

lemma assign_by_type_untyped:
  assumes "typed_model dtv = None"
  shows "assign_by_type from_dict dtv rc r = Inr r"
proof (cases dtv)
  case (PStr x)
  with assms show ?thesis
    by (simp add: assign_by_type_def on_ok_Inr split: if_splits)
qed (simp_all add: assign_by_type_def on_ok_Inr)

lemma get_destination_ok:
  assumes ok: "status_ok (status_code (inst (GetDestinationRequest did)))"
    and raw: "attr (inst (GetDestinationRequest did)) ''raw_response'' = Inr raw"
    and body: "getattr raw ''text'' = Inr (PStr body)"
    and loads: "json_loads body = Inr (PDict d)"
    and conf: "map_of d ''configuration'' = Some rc"
    and dt: "dict_get (PDict d) ''destinationType'' = Inr dtv"
  shows "get_destination inst json_loads from_dict did =
      on_ok (assign_by_type from_dict dtv rc (inst (GetDestinationRequest did)))
        (\<lambda>r4. attr r4 ''destination_response'')"
proof -
  have g: "getitem (PDict d) ''configuration'' = Inr rc" using conf by simp
  have l: "loads_text json_loads (PStr body) = Inr (PDict d)"
    using loads by (simp add: loads_text_def)
  show ?thesis
    unfolding get_destination_def Let_def
    by (simp only: ok if_True raw body l g dt on_ok_Inr)
qed

text \<open>
  C7. On an OK status, with a raw body that parses to a JSON object holding a
  \<^verbatim>\<open>configuration\<close>: when the destination type is snowflake, bigquery, postgres or duckdb,
  \<^verbatim>\<open>get_destination\<close> returns the destination response with its \<^verbatim>\<open>configuration\<close> attribute
  replaced by the typed model built from the raw configuration, and every other attribute
  as it was; for any other destination type it returns the destination response
  unchanged.
\<close>

theorem get_destination_frame:
  assumes ok: "status_ok (status_code (inst (GetDestinationRequest did)))"
    and raw: "attr (inst (GetDestinationRequest did)) ''raw_response'' = Inr raw"
    and body: "getattr raw ''text'' = Inr (PStr body)"
    and loads: "json_loads body = Inr (PDict d)"
    and conf: "map_of d ''configuration'' = Some rc"
    and dt: "dict_get (PDict d) ''destinationType'' = Inr dtv"
  shows "(\<forall>m cls fs typed.
            typed_model dtv = Some m \<and> from_dict m rc = Inr typed \<and>
            attr (inst (GetDestinationRequest did)) ''destination_response'' = Inr (PObj cls fs)
            \<longrightarrow> get_destination inst json_loads from_dict did
                  = Inr (PObj cls (set_item ''configuration'' typed fs)) \<and>
                getattr (PObj cls (set_item ''configuration'' typed fs)) ''configuration''
                  = Inr typed \<and>
                (\<forall>a. a \<noteq> ''configuration'' \<longrightarrow>
                   getattr (PObj cls (set_item ''configuration'' typed fs)) a
                     = getattr (PObj cls fs) a)) \<and>
         (typed_model dtv = None \<longrightarrow>
            get_destination inst json_loads from_dict did
              = attr (inst (GetDestinationRequest did)) ''destination_response'')"
proof -
  note pre = get_destination_ok [where inst = inst and json_loads = json_loads
      and from_dict = from_dict, OF ok raw body loads conf dt]
  have typed: "get_destination inst json_loads from_dict did
                  = Inr (PObj cls (set_item ''configuration'' typed fs))"
    if "typed_model dtv = Some m" and "from_dict m rc = Inr typed"
      and "attr (inst (GetDestinationRequest did)) ''destination_response'' = Inr (PObj cls fs)"
    for m cls fs typed
    unfolding pre assign_by_type_typed [OF that(1)]
    by (rule assign_configuration_ok [where from_dict = from_dict and m = m and rc = rc,
          OF that(2) that(3)])
  have untyped: "get_destination inst json_loads from_dict did
              = attr (inst (GetDestinationRequest did)) ''destination_response''"
    if "typed_model dtv = None"
    unfolding pre assign_by_type_untyped [OF that] by (simp only: on_ok_Inr)
  have new: "getattr (PObj cls (set_item ''configuration'' typed fs)) ''configuration''
      = Inr typed" for cls fs typed
    by (simp only: getattr_setattr refl if_True)
  have frame: "getattr (PObj cls (set_item ''configuration'' typed fs)) a
      = getattr (PObj cls fs) a" if "a \<noteq> ''configuration''" for cls fs typed a
    using that by (simp only: getattr_setattr if_False)
  from typed untyped new frame show ?thesis by blast
qed

theorem get_destination_frame_witness:
  "get_destination (\<lambda>request. destination_found ''duckdb-body'') example_loads
     example_from_dict ''d1''
     = Inr (PObj ''DestinationResponse''
              [(''configuration'', PObj ''DestinationDuckdb'' [(''destination_path'', PStr ''temp_db'')]),
               (''destination_id'', PStr ''d1''),
               (''name'', PStr ''warehouse'')]) \<and>
   get_destination (\<lambda>request. destination_found ''mysql-body'') example_loads
     example_from_dict ''d1''
     = Inr (PObj ''DestinationResponse''
              [(''configuration'', PDict [(''destination_path'', PStr ''temp_db'')]),
               (''destination_id'', PStr ''d1''),
               (''name'', PStr ''warehouse'')])"
proof -
  have ok: "status_ok (status_code ((\<lambda>request. destination_found b) (GetDestinationRequest ''d1'')))"
    for b by (simp add: destination_found_def status_ok_def)
  have raw: "attr ((\<lambda>request. destination_found b) (GetDestinationRequest ''d1'')) ''raw_response''
      = Inr (PObj ''Response'' [(''text'', PStr b)])" for b
    by (simp add: destination_found_def attr_def)
  have body: "getattr (PObj ''Response'' [(''text'', PStr b)]) ''text'' = Inr (PStr b)" for b
    by simp
  have dr: "attr ((\<lambda>request. destination_found b) (GetDestinationRequest ''d1''))
      ''destination_response''
      = Inr (PObj ''DestinationResponse''
               [(''configuration'', PDict [(''destination_path'', PStr ''temp_db'')]),
                (''destination_id'', PStr ''d1''),
                (''name'', PStr ''warehouse'')])" for b
    by (simp add: destination_found_def attr_def)
  have l1: "example_loads ''duckdb-body'' =
      Inr (PDict [(''destinationType'', PStr ''duckdb''),
                  (''configuration'', PDict [(''destination_path'', PStr ''temp_db'')])])"
    by (simp add: example_loads_def)
  have l2: "example_loads ''mysql-body'' =
      Inr (PDict [(''destinationType'', PStr ''mysql''),
                  (''configuration'', PDict [(''host'', PStr ''db'')])])"
    by (simp add: example_loads_def)
  have c1: "map_of [(''destinationType'', PStr ''duckdb''),
                  (''configuration'', PDict [(''destination_path'', PStr ''temp_db'')])]
      ''configuration'' = Some (PDict [(''destination_path'', PStr ''temp_db'')])"
    by simp
  have c2: "map_of [(''destinationType'', PStr ''mysql''),
                  (''configuration'', PDict [(''host'', PStr ''db'')])]
      ''configuration'' = Some (PDict [(''host'', PStr ''db'')])"
    by simp
  have d1: "dict_get (PDict [(''destinationType'', PStr ''duckdb''),
                  (''configuration'', PDict [(''destination_path'', PStr ''temp_db'')])])
      ''destinationType'' = Inr (PStr ''duckdb'')"
    by simp
  have d2: "dict_get (PDict [(''destinationType'', PStr ''mysql''),
                  (''configuration'', PDict [(''host'', PStr ''db'')])])
      ''destinationType'' = Inr (PStr ''mysql'')"
    by simp
  have t1: "typed_model (PStr ''duckdb'') = Some ''DestinationDuckdb''" by simp
  have t2: "typed_model (PStr ''mysql'') = None" by simp
  have f1: "example_from_dict ''DestinationDuckdb'' (PDict [(''destination_path'', PStr ''temp_db'')])
      = Inr (PObj ''DestinationDuckdb'' [(''destination_path'', PStr ''temp_db'')])"
    by (simp add: example_from_dict_def)
  note w1 = get_destination_frame [where inst = "\<lambda>request. destination_found ''duckdb-body''"
      and json_loads = example_loads and from_dict = example_from_dict,
      OF ok raw body l1 c1 d1]
  note w2 = get_destination_frame [where inst = "\<lambda>request. destination_found ''mysql-body''"
      and json_loads = example_loads and from_dict = example_from_dict,
      OF ok raw body l2 c2 d2]
  from w1 t1 f1 dr [of "''duckdb-body''"]
  have r1: "get_destination (\<lambda>request. destination_found ''duckdb-body'') example_loads
     example_from_dict ''d1''
     = Inr (PObj ''DestinationResponse''
         (set_item ''configuration''
            (PObj ''DestinationDuckdb'' [(''destination_path'', PStr ''temp_db'')])
            [(''configuration'', PDict [(''destination_path'', PStr ''temp_db'')]),
             (''destination_id'', PStr ''d1''),
             (''name'', PStr ''warehouse'')]))"
    by blast
  from w2 t2 dr [of "''mysql-body''"]
  have r2: "get_destination (\<lambda>request. destination_found ''mysql-body'') example_loads
     example_from_dict ''d1''
     = Inr (PObj ''DestinationResponse''
              [(''configuration'', PDict [(''destination_path'', PStr ''temp_db'')]),
               (''destination_id'', PStr ''d1''),
               (''name'', PStr ''warehouse'')])"
    by simp
  from r1 r2 show ?thesis by simp
qed

subsection \<open>The legacy Config API\<close>

text \<open>
  C10. For an API root other than the Cloud API root, \<^verbatim>\<open>check_connector_config\<close> raises
  \<^verbatim>\<open>NotImplementedError\<close> and sends no HTTP request. For the Cloud API root, when the one
  request is answered, the status is not an error status and the body is a JSON object,
  it returns \<^verbatim>\<open>None\<close> exactly when the \<^verbatim>\<open>status\<close> field is the string \<^verbatim>\<open>succeeded\<close> and raises
  \<^verbatim>\<open>AirbyteConnectorCheckFailedError\<close> for every other value, a missing field included.
\<close>

theorem check_connector_config_outcomes:
  "(api_root \<noteq> CLOUD_API_ROOT \<longrightarrow>
      check_connector_config post json_loads cid ctv ws api_key api_root
        = (Inl NotImplementedError, [])) \<and>
   (api_root = CLOUD_API_ROOT \<and>
    post (check_request LEGACY_API_ROOT ctv cid api_key) = Inr resp \<and>
    raise_for_status resp = Inr () \<and>
    json_loads (http_text resp) = Inr (PDict d) \<longrightarrow>
      check_connector_config post json_loads cid ctv ws api_key api_root
        = (if map_of d ''status'' = Some (PStr ''succeeded'') then Inr ()
           else Inl AirbyteConnectorCheckFailedError,
           [check_request LEGACY_API_ROOT ctv cid api_key]))"
  by (auto simp: check_connector_config_def transform_legacy_api_root_def on_ok_def Let_def
      split: option.splits)

theorem check_connector_config_outcomes_witness:
  "check_connector_config (post_answering ''succeeded-body'') example_loads ''s1'' ''source''
     ''w1'' ''key'' ''https://airbyte.example.com/api/public/v1''
     = (Inl NotImplementedError, []) \<and>
   check_connector_config (post_answering ''succeeded-body'') example_loads ''s1'' ''source''
     ''w1'' ''key'' CLOUD_API_ROOT
     = (Inr (), [check_request LEGACY_API_ROOT ''source'' ''s1'' ''key'']) \<and>
   check_connector_config (post_answering ''failed-body'') example_loads ''s1'' ''source''
     ''w1'' ''key'' CLOUD_API_ROOT
     = (Inl AirbyteConnectorCheckFailedError,
        [check_request LEGACY_API_ROOT ''source'' ''s1'' ''key''])"
proof -
  have n: "''https://airbyte.example.com/api/public/v1'' \<noteq> CLOUD_API_ROOT"
    by (simp add: CLOUD_API_ROOT_def)
  have p: "post_answering b (check_request LEGACY_API_ROOT ''source'' ''s1'' ''key'')
      = Inr \<lparr>http_status_code = 200, http_text = b\<rparr>" for b
    by (simp add: post_answering_def)
  have s: "raise_for_status \<lparr>http_status_code = 200, http_text = b\<rparr> = Inr ()" for b
    by (simp add: raise_for_status_def)
  have l1: "example_loads (http_text \<lparr>http_status_code = 200, http_text = ''succeeded-body''\<rparr>)
      = Inr (PDict [(''status'', PStr ''succeeded'')])"
    by (simp add: example_loads_def)
  have l2: "example_loads (http_text \<lparr>http_status_code = 200, http_text = ''failed-body''\<rparr>)
      = Inr (PDict [(''status'', PStr ''failed''), (''message'', PStr ''bad credentials'')])"
    by (simp add: example_loads_def)
  from n check_connector_config_outcomes
    [of "''https://airbyte.example.com/api/public/v1''" "post_answering ''succeeded-body''"
        example_loads "''s1''" "''source''" "''w1''" "''key''"]
  have a: "check_connector_config (post_answering ''succeeded-body'') example_loads ''s1''
     ''source'' ''w1'' ''key'' ''https://airbyte.example.com/api/public/v1''
     = (Inl NotImplementedError, [])"
    by blast
  from p [of "''succeeded-body''"] s [of "''succeeded-body''"] l1 check_connector_config_outcomes
    [of CLOUD_API_ROOT "post_answering ''succeeded-body''" example_loads "''s1''" "''source''"
        "''w1''" "''key''" "\<lparr>http_status_code = 200, http_text = ''succeeded-body''\<rparr>"
        "[(''status'', PStr ''succeeded'')]"]
  have b: "check_connector_config (post_answering ''succeeded-body'') example_loads ''s1''
     ''source'' ''w1'' ''key'' CLOUD_API_ROOT
     = (Inr (), [check_request LEGACY_API_ROOT ''source'' ''s1'' ''key''])"
    by simp
  from p [of "''failed-body''"] s [of "''failed-body''"] l2 check_connector_config_outcomes
    [of CLOUD_API_ROOT "post_answering ''failed-body''" example_loads "''s1''" "''source''"
        "''w1''" "''key''" "\<lparr>http_status_code = 200, http_text = ''failed-body''\<rparr>"
        "[(''status'', PStr ''failed''), (''message'', PStr ''bad credentials'')]"]
  have c: "check_connector_config (post_answering ''failed-body'') example_loads ''s1''
     ''source'' ''w1'' ''key'' CLOUD_API_ROOT
     = (Inl AirbyteConnectorCheckFailedError,
        [check_request LEGACY_API_ROOT ''source'' ''s1'' ''key''])"
    by simp
  from a b c show ?thesis by (intro conjI)
qed

subsection \<open>Listing connections\<close>

lemma yield_connections_no_filter:
  "\<forall>c\<in>set cs. consumer c = Inr (keep c) \<Longrightarrow>
   yield_connections VarNone consumer cs = (filter keep cs, None)"
  by (induction cs) (simp_all add: passes_name_filter_def)

lemma list_connections_loop_serves:
  assumes serves: "serves_connections inst w cs"
    and cons: "\<forall>c\<in>set cs. consumer c = Inr (keep c)"
    and limit: "0 < limit"
  shows "list_connections_loop inst w VarNone consumer limit offset
           = Some (filter keep (drop offset cs), None)"
proof (induction "length cs - offset" arbitrary: offset rule: less_induct)
  case less
  let ?page = "take limit (drop offset cs)"
  have resp: "inst (ListConnectionsRequest [w] False limit offset) = connections_page ?page"
    using serves by (simp add: serves_connections_def)
  show ?case
  proof (cases "drop offset cs = []")
    case True
    then show ?thesis
      by (subst list_connections_loop.simps)
         (simp add: resp connections_page_def status_ok_def attr_def)
  next
    case False
    from False have lt: "offset < length cs" by simp
    have "set ?page \<subseteq> set cs" by (meson set_drop_subset set_take_subset subset_trans)
    with cons have "\<forall>c\<in>set ?page. consumer c = Inr (keep c)" by blast
    then have y: "yield_connections VarNone consumer ?page = (filter keep ?page, None)"
      by (rule yield_connections_no_filter)
    have "length cs - (offset + limit) < length cs - offset" using lt limit by simp
    then have ih: "list_connections_loop inst w VarNone consumer limit (offset + limit)
           = Some (filter keep (drop (offset + limit) cs), None)"
      by (rule less)
    have split: "filter keep ?page @ filter keep (drop (offset + limit) cs)
        = filter keep (drop offset cs)"
    proof -
      have d: "drop limit (drop offset cs) = drop (offset + limit) cs"
        by (simp add: add.commute)
      have "?page @ drop limit (drop offset cs) = drop offset cs"
        by (rule append_take_drop_id)
      then have "?page @ drop (offset + limit) cs = drop offset cs"
        by (simp only: d)
      then have "filter keep (?page @ drop (offset + limit) cs) = filter keep (drop offset cs)"
        by (rule arg_cong)
      then show ?thesis by (simp only: filter_append)
    qed
    show ?thesis
      using limit False
      by (subst list_connections_loop.simps)
         (simp add: resp connections_page_def status_ok_def attr_def y ih split)
  qed
qed

lemma list_connections_no_filter:
  assumes "serves_connections inst w cs" and "\<forall>c\<in>set cs. consumer c = Inr (keep c)"
  shows "list_connections inst w ArgNone consumer = Some (filter keep cs, None)"
  using list_connections_loop_serves [OF assms, of 50 0] by (simp add: list_connections_def)

lemma paging_server_serves: "serves_connections (paging_server cs) w cs"
  by (simp add: serves_connections_def paging_server_def)

text \<open>
  C8. For a workspace whose connections the server lists page by page, each connection
  having a name: \<^verbatim>\<open>get_connection_by_name\<close> returns the connection when exactly one has the
  given name, raises \<^verbatim>\<open>AirbyteMissingResourceError\<close> when none has it, and raises
  \<^verbatim>\<open>AirbyteMultipleResourcesError\<close> when more than one has it. In each case it returns:
  the listing ends.
\<close>

theorem get_connection_by_name_unique:
  assumes serves: "serves_connections inst w cs"
    and named: "\<forall>c\<in>set cs. \<exists>n. getattr c ''name'' = Inr n"
  shows "(\<forall>c. filter (\<lambda>c. has_name c wanted) cs = [c] \<longrightarrow>
            get_connection_by_name inst w wanted = Some (Inr c)) \<and>
         (filter (\<lambda>c. has_name c wanted) cs = [] \<longrightarrow>
            get_connection_by_name inst w wanted = Some (Inl AirbyteMissingResourceError)) \<and>
         (length (filter (\<lambda>c. has_name c wanted) cs) > 1 \<longrightarrow>
            get_connection_by_name inst w wanted = Some (Inl AirbyteMultipleResourcesError))"
proof -
  have "\<forall>c\<in>set cs. name_equals wanted c = Inr (has_name c wanted)"
    using named by (auto simp: name_equals_def has_name_def on_ok_def)
  then have "list_connections inst w ArgNone (name_equals wanted)
      = Some (filter (\<lambda>c. has_name c wanted) cs, None)"
    by (rule list_connections_no_filter [OF serves])
  then show ?thesis
    by (simp add: get_connection_by_name_def)
qed

theorem get_connection_by_name_unique_witness:
  "get_connection_by_name
     (paging_server [connection ''c1'' ''orders'', connection ''c2'' ''users'',
                     connection ''c3'' ''users''])
     ''w1'' ''orders'' = Some (Inr (connection ''c1'' ''orders'')) \<and>
   get_connection_by_name
     (paging_server [connection ''c1'' ''orders'', connection ''c2'' ''users'',
                     connection ''c3'' ''users''])
     ''w1'' ''order'' = Some (Inl AirbyteMissingResourceError) \<and>
   get_connection_by_name
     (paging_server [connection ''c1'' ''orders'', connection ''c2'' ''users'',
                     connection ''c3'' ''users''])
     ''w1'' ''users'' = Some (Inl AirbyteMultipleResourcesError)"
proof -
  let ?cs = "[connection ''c1'' ''orders'', connection ''c2'' ''users'',
              connection ''c3'' ''users'']"
  have named: "\<forall>c\<in>set ?cs. \<exists>n. getattr c ''name'' = Inr n"
    by (simp add: connection_def)
  note t = get_connection_by_name_unique [OF paging_server_serves named, of _ "''w1''"]
  have f1: "filter (\<lambda>c. has_name c ''orders'') ?cs = [connection ''c1'' ''orders'']"
    by (simp add: has_name_def connection_def)
  have f2: "filter (\<lambda>c. has_name c ''order'') ?cs = []"
    by (simp add: has_name_def connection_def)
  have f3: "length (filter (\<lambda>c. has_name c ''users'') ?cs) > 1"
    by (simp add: has_name_def connection_def)
  from t [of "''orders''"] f1
  have a: "get_connection_by_name (paging_server ?cs) ''w1'' ''orders''
      = Some (Inr (connection ''c1'' ''orders''))" by blast
  from t [of "''order''"] f2
  have b: "get_connection_by_name (paging_server ?cs) ''w1'' ''order''
      = Some (Inl AirbyteMissingResourceError)" by blast
  from t [of "''users''"] f3
  have c: "get_connection_by_name (paging_server ?cs) ''w1'' ''users''
      = Some (Inl AirbyteMultipleResourcesError)" by blast
  from a b c show ?thesis by (intro conjI)
qed

text \<open>With no name filter, \<^verbatim>\<open>list_connections\<close> yields every connection of the workspace,
  in the order of the pages.\<close>

lemma list_connections_None_yields_all:
  assumes "serves_connections inst w cs"
  shows "list_connections inst w ArgNone take_all = Some (cs, None)"
  using list_connections_no_filter [OF assms, of take_all "\<lambda>c. True"]
  by (simp add: take_all_def)

text \<open>
  C9. The claim: with a string \<^verbatim>\<open>name_filter\<close>, \<^verbatim>\<open>list_connections\<close> yields exactly the
  connections whose name contains it. On a workspace with the one connection \<^verbatim>\<open>my-conn\<close>
  and the filter \<^verbatim>\<open>conn\<close>, the iteration yields nothing and ends with \<^verbatim>\<open>TypeError\<close>: the
  inner function tests whether the function \<^verbatim>\<open>name_filter\<close> itself occurs in the name.
\<close>

theorem list_connections_str_filter_raises:
  "list_connections (paging_server [connection ''c1'' ''my-conn'']) ''w1'' (ArgStr ''conn'')
     take_all = Some ([], Some TypeError)"
  unfolding list_connections_def
  by (subst list_connections_loop.simps)
     (simp add: paging_server_def connections_page_def status_ok_def attr_def connection_def
        passes_name_filter_def on_ok_def)

end
